theory Spec2Isabelle
  imports Complex_Main
begin

section \<open>Urban heat island analysis: the pipeline of backend/app.py\<close>

text \<open>
  The development embeds the helper functions and the request handler
  \<^verbatim>\<open>analyze_uhi\<close> of \<^verbatim>\<open>backend/app.py\<close>.

  Numbers. Python's \<^verbatim>\<open>int\<close> is \<^typ>\<open>int\<close>. A \<^verbatim>\<open>float\<close> is modelled by a real number. A
  float that the program obtains from \<^verbatim>\<open>round(x, n)\<close> or writes as a decimal constant is
  modelled by that decimal (the program holds the binary64 number nearest to it, \<open>fl\<close> of
  it), and the generation of an observation and the aggregates of the statistics are
  computed on these decimals in exact arithmetic: the thresholds, the clamp, the counts
  and the lengths do not depend on the binary rounding. The second pass (lines 147-154)
  is modelled in binary64: the temperatures are the floats \<open>fl\<close> of their decimals, and the
  mean, each subtraction and each \<^verbatim>\<open>round\<close> are computed as the program computes them.

  Library calls. \<^verbatim>\<open>random.uniform\<close>, \<^verbatim>\<open>datetime.now\<close>, the builtin \<^verbatim>\<open>int\<close> on a
  string and the builtin \<^verbatim>\<open>sum\<close> on two or more floats are not code of the program; they
  are parameters of the model (a source of randomness, a clock, a parser, a summation),
  so that every theorem holds for whatever they return. \<^verbatim>\<open>round\<close>, \<^verbatim>\<open>min\<close>, \<^verbatim>\<open>max\<close>,
  \<^verbatim>\<open>len\<close>, \<^verbatim>\<open>range\<close> and the arithmetic of \<^verbatim>\<open>datetime\<close> are written out, with the
  exceptions they raise.
\<close>

subsection \<open>Exceptions\<close>

text \<open>
  The exceptions the body of \<^verbatim>\<open>analyze_uhi\<close> can raise. All of them are subclasses of
  \<^verbatim>\<open>Exception\<close>, so the handler at lines 195-200 catches each one.
  \<^item> \<open>ValueError msg\<close>: the \<^verbatim>\<open>ValueError\<close> that \<^verbatim>\<open>int\<close> raises on a string, \<open>msg\<close>
    being its message (\<^verbatim>\<open>str(e)\<close>, the error text of the response);
  \<^item> \<open>ZeroDivisionError\<close>: a division by \<^verbatim>\<open>len\<close> of an empty list ("division by zero");
  \<^item> \<open>EmptySequence\<close>: the \<^verbatim>\<open>ValueError\<close> of \<^verbatim>\<open>min\<close> or \<^verbatim>\<open>max\<close> of an empty list;
  \<^item> \<open>OverflowError\<close>: a \<^verbatim>\<open>timedelta\<close> or a date out of range.
\<close>

datatype error = ValueError string | ZeroDivisionError | EmptySequence | OverflowError

definition bind_err :: "error + 'a \<Rightarrow> ('a \<Rightarrow> error + 'b) \<Rightarrow> error + 'b" where
  "bind_err m f = (case m of Inl e \<Rightarrow> Inl e | Inr x \<Rightarrow> f x)"

subsection \<open>Builtins\<close>

text \<open>
  \<^verbatim>\<open>round(x, n)\<close> on a float rounds the value of \<open>x\<close> to the nearest multiple of
  \<open>10^-n\<close>, a tie going to the even multiple.
\<close>

definition round_half_even :: "real \<Rightarrow> int" where
  "round_half_even x =
     (let f = \<lfloor>x\<rfloor>; d = x - of_int f
      in if d < 1 / 2 then f
         else if 1 / 2 < d then f + 1
         else if even f then f else f + 1)"

definition py_round :: "real \<Rightarrow> nat \<Rightarrow> real" where
  "py_round x n = of_int (round_half_even (x * 10 ^ n)) / 10 ^ n"

text \<open>
  Binary64. \<open>fl x\<close> is the floating-point number nearest to \<open>x\<close>: \<open>x\<close> is scaled by a
  power of two to a significand between \<open>2^52\<close> and \<open>2^53\<close>, which is rounded to an
  integer, a tie going to the even one. An addition, a subtraction or a division of two
  floats returns \<open>fl\<close> of the exact result. The exponent range of binary64 is not
  modelled (no overflow, no subnormal numbers): the second pass works on temperatures
  between 28 and 45, their mean and their differences, which are zero or far from both
  ends of the range.
\<close>

definition fl :: "real \<Rightarrow> real" where
  "fl x =
     (if x = 0 then 0
      else let q = 2 powr (of_int \<lfloor>log 2 \<bar>x\<bar>\<rfloor> - 52)
           in of_int (round_half_even (x / q)) * q)"

text \<open>
  \<^verbatim>\<open>sum(xs)\<close> of a list of floats starts from the integer 0: the empty list gives 0 and
  a single float gives itself. For two or more floats the result depends on the
  interpreter (a left-to-right sum of rounded additions before Python 3.12, a compensated
  sum from 3.12 on), so it is the parameter \<open>fs\<close>. \<open>naive_sum\<close> is the left-to-right
  sum, used in the examples on lists whose partial sums are exact.
\<close>

type_synonym float_sum = "real list \<Rightarrow> real"

definition py_sum :: "float_sum \<Rightarrow> real list \<Rightarrow> real" where
  "py_sum fs xs = (case xs of [] \<Rightarrow> 0 | [x] \<Rightarrow> x | _ \<Rightarrow> fs xs)"

definition naive_sum :: float_sum where
  "naive_sum xs = foldl (\<lambda>a x. fl (a + x)) 0 xs"

text \<open>\<^verbatim>\<open>a / len(xs)\<close>: true division, raising on a zero divisor.\<close>

definition py_div :: "real \<Rightarrow> nat \<Rightarrow> error + real" where
  "py_div a n = (if n = 0 then Inl ZeroDivisionError else Inr (a / of_nat n))"

text \<open>\<^verbatim>\<open>min(xs)\<close> and \<^verbatim>\<open>max(xs)\<close> of a list, raising on the empty list.\<close>

definition py_min :: "real list \<Rightarrow> error + real" where
  "py_min xs = (case xs of [] \<Rightarrow> Inl EmptySequence | x # ys \<Rightarrow> Inr (fold min ys x))"

definition py_max :: "real list \<Rightarrow> error + real" where
  "py_max xs = (case xs of [] \<Rightarrow> Inl EmptySequence | x # ys \<Rightarrow> Inr (fold max ys x))"

text \<open>The number of iterations of \<^verbatim>\<open>for _ in range(points)\<close>: none for \<open>points \<le> 0\<close>.\<close>

definition range_len :: "int \<Rightarrow> nat" where
  "range_len points = (if points \<le> 0 then 0 else nat points)"

subsection \<open>Helper functions (lines 23-68)\<close>

definition classify_vegetation :: "real \<Rightarrow> string" where
  "classify_vegetation ndvi =
     (if ndvi < 0.2 then ''Water/Built-up''
      else if ndvi < 0.4 then ''Barren/Sparse''
      else if ndvi < 0.6 then ''Moderate Vegetation''
      else ''Dense Vegetation'')"

text \<open>The two lookup tables are dictionaries read with \<^verbatim>\<open>dict.get(zone, default)\<close>.\<close>

definition colors :: "int \<rightharpoonup> string" where
  "colors = [0 \<mapsto> ''#ef4444'', 1 \<mapsto> ''#f97316'', 2 \<mapsto> ''#22c55e'']"

definition get_zone_color :: "int \<Rightarrow> string" where
  "get_zone_color zone = (case colors zone of Some c \<Rightarrow> c | None \<Rightarrow> ''#9ca3af'')"

definition severity_map :: "int \<rightharpoonup> string" where
  "severity_map = [0 \<mapsto> ''High'', 1 \<mapsto> ''Medium'', 2 \<mapsto> ''Low'']"

definition get_severity :: "int \<Rightarrow> string" where
  "get_severity zone = (case severity_map zone of Some s \<Rightarrow> s | None \<Rightarrow> ''Unknown'')"

definition get_recommendation :: "int \<Rightarrow> real \<Rightarrow> string" where
  "get_recommendation zone ndvi =
     (if zone = 0 then
        (if ndvi < 0.3 then ''Plant more trees and create green spaces urgently''
         else ''Improve ventilation and add water features'')
      else if zone = 1 then
        (if ndvi < 0.4 then ''Increase vegetation cover and add shade structures''
         else ''Maintain current green cover and monitor temperature'')
      else ''Maintain existing vegetation and urban planning'')"

subsection \<open>Observations, statistics and the response\<close>

text \<open>One entry of \<^verbatim>\<open>results\<close> (the dictionary built at lines 134-145).\<close>

record point =
  lat :: real
  lon :: real
  lst :: real
  ndvi :: real
  zone :: int
  vegetation :: string
  color :: string
  severity :: string
  recommendation :: string
  uhi_intensity :: real

text \<open>
  The \<^verbatim>\<open>statistics\<close> dictionary (lines 157-183). Its nested dictionaries are records of
  their own; the key \<^verbatim>\<open>vegetation\<close> of the statistics is the field \<open>vegetation_ndvi\<close>,
  since an observation has a key of that name too. A date is its proleptic Gregorian
  ordinal (\<^verbatim>\<open>date.toordinal()\<close>, day 1 being 0001-01-01); the text that
  \<^verbatim>\<open>strftime("%Y-%m-%d")\<close> prints for it is not modelled.
\<close>

record temperature_rec =
  min_lst :: real
  max_lst :: real
  avg_lst :: real
  std_lst :: real

record vegetation_rec =
  min_ndvi :: real
  max_ndvi :: real
  avg_ndvi :: real

record uhi_rec =
  min_intensity :: real
  max_intensity :: real
  avg_intensity :: real

record date_range_rec =
  start_date :: int
  end_date :: int
  image_date :: int

record statistics_rec =
  total_points :: int
  high_heat_zones :: int
  medium_heat_zones :: int
  low_heat_zones :: int
  temperature :: temperature_rec
  vegetation_ndvi :: vegetation_rec
  uhi :: uhi_rec
  date_range :: date_range_rec

text \<open>
  The two responses of the handler: \<open>Success\<close> is the JSON object with
  \<^verbatim>\<open>success: true\<close>, \<^verbatim>\<open>data\<close> and \<^verbatim>\<open>statistics\<close> (lines 189-193); \<open>Failure e\<close> is the
  object with \<^verbatim>\<open>success: false\<close> and \<^verbatim>\<open>error: str(e)\<close>, sent with status 500
  (lines 195-200).
\<close>

datatype response =
  Success (data: "point list") (statistics: statistics_rec)
| Failure (exc: error)

subsection \<open>The parameters: randomness, clock, parser\<close>

text \<open>
  \<open>rng k a b\<close> is what the \<open>k\<close>-th call of \<^verbatim>\<open>random.uniform\<close> in the request returns
  when it is called as \<^verbatim>\<open>random.uniform(a, b)\<close> (calls counted from 0). The library
  promises \<open>a \<le> rng k a b \<le> b\<close>; no theorem below needs it.
  \<open>clock k\<close> is the ordinal of the date that the \<open>k\<close>-th call of \<^verbatim>\<open>datetime.now()\<close>
  returns.
\<close>

type_synonym rng = "nat \<Rightarrow> real \<Rightarrow> real \<Rightarrow> real"

type_synonym clock = "nat \<Rightarrow> int"

text \<open>
  \<^verbatim>\<open>timedelta(days=d)\<close> and \<^verbatim>\<open>datetime - timedelta\<close>: both raise \<^verbatim>\<open>OverflowError\<close> out
  of range (a \<^verbatim>\<open>timedelta\<close> holds at most 999999999 days either way; a date lies between
  0001-01-01, ordinal 1, and 9999-12-31, ordinal 3652059).
\<close>

definition timedelta :: "int \<Rightarrow> error + int" where
  "timedelta d = (if \<bar>d\<bar> \<le> 999999999 then Inr d else Inl OverflowError)"

definition datetime_sub :: "int \<Rightarrow> int \<Rightarrow> error + int" where
  "datetime_sub today d =
     (let r = today - d in if 1 \<le> r \<and> r \<le> 3652059 then Inr r else Inl OverflowError)"

text \<open>
  \<^verbatim>\<open>int(request.args.get(name, default))\<close> (lines 89-90): an absent parameter is the integer
  default; a present one is a string, parsed by the builtin \<^verbatim>\<open>int\<close>, here the parameter
  \<open>py_int\<close>: \<open>py_int s\<close> is \<open>Inr n\<close> where \<^verbatim>\<open>int(s)\<close> returns \<open>n\<close> and \<open>Inl msg\<close> where it
  raises a \<^verbatim>\<open>ValueError\<close> with the message \<open>msg\<close> (for most strings "invalid literal for
  int() with base 10: ..." with the text quoted, for more than 4300 digits a message
  about the digit limit).
\<close>

definition request_arg :: "(string \<Rightarrow> string + int) \<Rightarrow> string option \<Rightarrow> int \<Rightarrow> error + int" where
  "request_arg py_int arg dflt =
     (case arg of
        None \<Rightarrow> Inr dflt
      | Some s \<Rightarrow> (case py_int s of Inl msg \<Rightarrow> Inl (ValueError msg) | Inr n \<Rightarrow> Inr n))"

subsection \<open>Generation and classification (lines 94-145)\<close>

definition center_lat :: real where
  "center_lat = 20.2961"

definition center_lon :: real where
  "center_lon = 85.8245"

text \<open>The zone of a temperature (lines 122-127).\<close>

definition zone_of :: "real \<Rightarrow> int" where
  "zone_of t = (if t \<ge> 40 then 0 else if t \<ge> 34 then 1 else 2)"

text \<open>
  The state of the generation loop: the number of \<^verbatim>\<open>random.uniform\<close> calls made so far
  and the three lists the loop appends to (\<^verbatim>\<open>uhi_list\<close> stays empty until the second
  pass).
\<close>

record gen_state =
  calls :: nat
  results :: "point list"
  temp_list :: "real list"
  ndvi_list :: "real list"

definition gen_init :: gen_state where
  "gen_init = \<lparr>calls = 0, results = [], temp_list = [], ndvi_list = []\<rparr>"

text \<open>
  The observation built by one iteration of the loop (lines 105-145), \<open>k\<close> being the
  number of \<^verbatim>\<open>random.uniform\<close> calls made before it.
\<close>

definition gen_point :: "rng \<Rightarrow> nat \<Rightarrow> point" where
  "gen_point rng k =
     (let lat_v = center_lat + rng k (- 0.08) 0.08;
          lon_v = center_lon + rng (k + 1) (- 0.08) 0.08;
          lst_v = py_round (rng (k + 2) 28 45) 2;
          ndvi_r = py_round (rng (k + 3) 0.1 0.8 * (1 - (lst_v - 28) / 20)) 3;
          ndvi_v = max 0.05 (min 0.85 ndvi_r);
          zone_v = zone_of lst_v
      in \<lparr>lat = lat_v, lon = lon_v, lst = lst_v, ndvi = ndvi_v, zone = zone_v,
          vegetation = classify_vegetation ndvi_v,
          color = get_zone_color zone_v,
          severity = get_severity zone_v,
          recommendation = get_recommendation zone_v ndvi_v,
          uhi_intensity = 0\<rparr>)"

text \<open>
  One iteration: four calls of \<^verbatim>\<open>random.uniform\<close>, and the three appends (lines 110,
  116, 134).
\<close>

definition gen_step :: "rng \<Rightarrow> gen_state \<Rightarrow> gen_state" where
  "gen_step rng st =
     (let p = gen_point rng (calls st)
      in \<lparr>calls = calls st + 4,
          results = results st @ [p],
          temp_list = temp_list st @ [lst p],
          ndvi_list = ndvi_list st @ [ndvi p]\<rparr>)"

fun gen_loop :: "nat \<Rightarrow> rng \<Rightarrow> gen_state \<Rightarrow> gen_state" where
  "gen_loop 0 rng st = st"
| "gen_loop (Suc n) rng st = gen_loop n rng (gen_step rng st)"

definition generate :: "rng \<Rightarrow> int \<Rightarrow> gen_state" where
  "generate rng points = gen_loop (range_len points) rng gen_init"

subsection \<open>Aggregation (lines 147-183)\<close>

text \<open>
  The mean temperature (line 148) of a non-empty list: the floats of the temperatures are
  summed, and the sum is divided by their number.
\<close>

definition float_mean :: "float_sum \<Rightarrow> real list \<Rightarrow> real" where
  "float_mean fs temps = fl (py_sum fs (map fl temps) / real (length temps))"

text \<open>
  The second pass (lines 151-154): the intensity of a point, and the updated list.
  \<^verbatim>\<open>point["lst"] - mean_temp\<close> is a subtraction of two floats, and \<^verbatim>\<open>round\<close> rounds its
  result to two decimals.
\<close>

definition deviation :: "real \<Rightarrow> point \<Rightarrow> real" where
  "deviation mean_temp p = fl (fl (lst p) - mean_temp)"

definition intensity :: "real \<Rightarrow> point \<Rightarrow> real" where
  "intensity mean_temp p = py_round (deviation mean_temp p) 2"

definition update_uhi :: "real \<Rightarrow> point list \<Rightarrow> point list" where
  "update_uhi mean_temp ps = map (\<lambda>p. p\<lparr>uhi_intensity := intensity mean_temp p\<rparr>) ps"

definition zone_count :: "int \<Rightarrow> point list \<Rightarrow> int" where
  "zone_count z ps = int (length (filter (\<lambda>p. zone p = z) ps))"

text \<open>
  The statistics dictionary, its entries evaluated in the order of the source; the first
  exception ends the evaluation.
\<close>

definition compute_statistics ::
  "clock \<Rightarrow> int \<Rightarrow> int \<Rightarrow> point list \<Rightarrow> real list \<Rightarrow> real list \<Rightarrow> real list \<Rightarrow> real
     \<Rightarrow> error + statistics_rec" where
  "compute_statistics clock points days ps temps ndvis uhis mean_temp =
     bind_err (py_min temps) (\<lambda>tmin.
     bind_err (py_max temps) (\<lambda>tmax.
     bind_err (py_div (sum_list (map (\<lambda>t. (t - mean_temp) ^ 2) temps)) (length temps)) (\<lambda>var.
     bind_err (py_min ndvis) (\<lambda>nmin.
     bind_err (py_max ndvis) (\<lambda>nmax.
     bind_err (py_div (sum_list ndvis) (length ndvis)) (\<lambda>navg.
     bind_err (py_min uhis) (\<lambda>umin.
     bind_err (py_max uhis) (\<lambda>umax.
     bind_err (py_div (sum_list uhis) (length uhis)) (\<lambda>uavg.
     bind_err (timedelta days) (\<lambda>delta.
     bind_err (datetime_sub (clock 0) delta) (\<lambda>start.
       Inr \<lparr>total_points = points,
            high_heat_zones = zone_count 0 ps,
            medium_heat_zones = zone_count 1 ps,
            low_heat_zones = zone_count 2 ps,
            temperature = \<lparr>min_lst = py_round tmin 1, max_lst = py_round tmax 1,
                            avg_lst = py_round mean_temp 1, std_lst = py_round (sqrt var) 1\<rparr>,
            vegetation_ndvi = \<lparr>min_ndvi = py_round nmin 3, max_ndvi = py_round nmax 3,
                                avg_ndvi = py_round navg 3\<rparr>,
            uhi = \<lparr>min_intensity = py_round umin 1, max_intensity = py_round umax 1,
                    avg_intensity = py_round uavg 1\<rparr>,
            date_range = \<lparr>start_date = start, end_date = clock 1,
                           image_date = clock 2\<rparr>\<rparr>)))))))))))"

text \<open>The body of the \<^verbatim>\<open>try\<close> block after the two parameters are read (lines 92-193).\<close>

definition analyze_body ::
  "float_sum \<Rightarrow> rng \<Rightarrow> clock \<Rightarrow> int \<Rightarrow> int \<Rightarrow> error + point list \<times> statistics_rec" where
  "analyze_body fs rng clock points days =
     (let st = generate rng points
      in bind_err (py_div (py_sum fs (map fl (temp_list st))) (length (temp_list st))) (\<lambda>quot.
           let mean_temp = fl quot;
               ps = update_uhi mean_temp (results st);
               uhi_list = map (intensity mean_temp) (results st)
           in bind_err (compute_statistics clock points days ps (temp_list st) (ndvi_list st)
                          uhi_list mean_temp) (\<lambda>stats. Inr (ps, stats))))"

text \<open>The handler: the \<^verbatim>\<open>try\<close> block and its \<^verbatim>\<open>except Exception\<close> clause.\<close>

definition respond :: "error + point list \<times> statistics_rec \<Rightarrow> response" where
  "respond r = (case r of Inl e \<Rightarrow> Failure e | Inr (ps, stats) \<Rightarrow> Success ps stats)"

definition analyze_uhi ::
  "(string \<Rightarrow> string + int) \<Rightarrow> float_sum \<Rightarrow> rng \<Rightarrow> clock \<Rightarrow> string option \<Rightarrow> string option
     \<Rightarrow> response" where
  "analyze_uhi py_int fs rng clock points_arg days_arg =
     respond
       (bind_err (request_arg py_int points_arg 100) (\<lambda>points.
        bind_err (request_arg py_int days_arg 30) (\<lambda>days.
          analyze_body fs rng clock points days)))"

subsection \<open>Concrete parameters for the examples\<close>

text \<open>
  A parser for the examples. It reads an optional sign followed by ASCII digits, where the
  builtin \<^verbatim>\<open>int\<close> returns the same number, and rejects every other string with the
  message that \<^verbatim>\<open>int\<close> has for a text of letters; \<^verbatim>\<open>int\<close> accepts a few more strings
  (blanks around the number, underscores between digits), limits the number of digits and
  escapes some characters in its message, and no example below uses a string where that
  matters.
\<close>

definition digit_of :: "char \<Rightarrow> nat option" where
  "digit_of c =
     (let n = (of_char c :: nat) in if 48 \<le> n \<and> n \<le> 57 then Some (n - 48) else None)"

fun digits_val :: "nat \<Rightarrow> string \<Rightarrow> nat option" where
  "digits_val acc [] = Some acc"
| "digits_val acc (c # cs) =
     (case digit_of c of None \<Rightarrow> None | Some d \<Rightarrow> digits_val (10 * acc + d) cs)"

definition invalid_literal :: "string \<Rightarrow> string" where
  "invalid_literal s = ''invalid literal for int() with base 10: '' @ [CHR 0x27] @ s @ [CHR 0x27]"

definition signed_digits :: "string \<Rightarrow> int option" where
  "signed_digits s =
     (case s of
        [] \<Rightarrow> None
      | c # cs \<Rightarrow>
          if c = CHR ''-'' then
            (if cs = [] then None else map_option (\<lambda>n. - int n) (digits_val 0 cs))
          else if c = CHR ''+'' then
            (if cs = [] then None else map_option int (digits_val 0 cs))
          else map_option int (digits_val 0 s))"

definition decimal_int :: "string \<Rightarrow> string + int" where
  "decimal_int s = (case signed_digits s of None \<Rightarrow> Inl (invalid_literal s) | Some n \<Rightarrow> Inr n)"

text \<open>A clock that stays on 2026-11-04 (ordinal 739924).\<close>

definition clock_2026 :: clock where
  "clock_2026 k = 739924"

text \<open>
  Two sources of randomness. Each returns the lower bound \<open>a\<close> of the call except at the
  calls listed: with \<open>rng_demo\<close> the first observation has the temperature draw 45 and
  the vegetation draw 2/3, the second the temperature draw 39; with \<open>rng_skew\<close> the
  third observation has the temperature draw 28.5. Every value lies within the bounds of
  the call that receives it.
\<close>

definition rng_demo :: rng where
  "rng_demo k a b = (if k = 2 then 45 else if k = 3 then 2 / 3 else if k = 6 then 39 else a)"


text \<open>
  A third source: the second observation has the temperature draw 28.09, which is not a
  float. The exact deviations of 28.0 and 28.09 from their mean are -0.045 and 0.045,
  two ties of the two-decimal rounding; the program computes them in binary64 as
  -0.045000000000001705 and 0.04499999999999815.
\<close>

definition rng_tie :: rng where
  "rng_tie k a b = (if k = 6 then 28.09 else a)"

text \<open>
  Five requests: \<^verbatim>\<open>?points=3\<close> and \<^verbatim>\<open>?points=1\<close> with \<open>rng_demo\<close>,
  \<^verbatim>\<open>?points=3\<close> with \<open>rng_skew\<close>, \<^verbatim>\<open>?points=2\<close> with \<open>rng_tie\<close> (\<^verbatim>\<open>days\<close> is absent
  in these four), and \<^verbatim>\<open>?points=1&days=-5\<close>, each with the left-to-right sum.
\<close>

definition demo3 :: response where
  "demo3 = analyze_uhi decimal_int naive_sum rng_demo clock_2026 (Some ''3'') None"

definition demo1 :: response where
  "demo1 = analyze_uhi decimal_int naive_sum rng_demo clock_2026 (Some ''1'') None"


definition tie2 :: response where
  "tie2 = analyze_uhi decimal_int naive_sum rng_tie clock_2026 (Some ''2'') None"

definition neg_days :: response where
  "neg_days = analyze_uhi decimal_int naive_sum rng_demo clock_2026 (Some ''1'') (Some ''-5'')"

subsection \<open>What the loop establishes for an observation\<close>

text \<open>
  The derived fields of an observation are the helper functions applied to its own
  temperature and vegetation index, and the vegetation index is clamped.
\<close>

definition classified :: "point \<Rightarrow> bool" where
  "classified p \<longleftrightarrow>
     zone p = zone_of (lst p) \<and> vegetation p = classify_vegetation (ndvi p) \<and>
     color p = get_zone_color (zone p) \<and> severity p = get_severity (zone p) \<and>
     recommendation p = get_recommendation (zone p) (ndvi p) \<and>
     0.05 \<le> ndvi p \<and> ndvi p \<le> 0.85"

section \<open>Properties of the model\<close>

subsection \<open>Builtins\<close>



lemma floor_log2_eq:
  assumes "2 powr of_int e \<le> \<bar>x\<bar>" and "\<bar>x\<bar> < 2 * 2 powr of_int e"
  shows "\<lfloor>log 2 \<bar>x\<bar>\<rfloor> = e"
proof -
  have pos: "0 < \<bar>x\<bar>"
    using assms(1) by (smt (verit) powr_gt_zero)
  have "of_int e \<le> log 2 \<bar>x\<bar>"
    using assms(1) pos by (simp add: le_log_iff)
  moreover have "log 2 \<bar>x\<bar> < of_int e + 1"
    using assms(2) pos by (simp add: log_less_iff powr_add)
  ultimately show ?thesis
    by linarith
qed

text \<open>
  The value of \<open>fl\<close> at a number whose binary exponent is known: between \<open>2^k\<close> and
  \<open>2^(k+1)\<close>, and between \<open>2^-k\<close> and \<open>2^(1-k)\<close>.
\<close>

lemma fl_eval_ge1:
  assumes "2 ^ k \<le> \<bar>x\<bar>" and "\<bar>x\<bar> < 2 * 2 ^ k" and "k \<le> 52"
  shows "fl x = of_int (round_half_even (x * 2 ^ (52 - k))) / 2 ^ (52 - k)"
proof -
  have "\<lfloor>log 2 \<bar>x\<bar>\<rfloor> = int k"
    using assms(1,2) by (intro floor_log2_eq) (simp_all add: powr_realpow)
  moreover have "2 powr (real_of_int (int k) - 52) = 1 / 2 ^ (52 - k)"
  proof -
    have "real_of_int (int k) - 52 = - real (52 - k)"
      using assms(3) by simp
    then show ?thesis
      by (simp only: powr_minus powr_realpow) (simp add: powr_realpow divide_inverse)
  qed
  moreover have "x \<noteq> 0"
  proof
    assume "x = 0"
    with assms(1) have "(2::real) ^ k \<le> 0" by simp
    then show False using zero_less_power [of "2::real" k] by linarith
  qed
  ultimately show ?thesis
    by (simp add: fl_def Let_def)
qed

lemma fl_eval_lt1:
  assumes "1 / 2 ^ k \<le> \<bar>x\<bar>" and "\<bar>x\<bar> < 2 / 2 ^ k"
  shows "fl x = of_int (round_half_even (x * 2 ^ (52 + k))) / 2 ^ (52 + k)"
proof -
  have "\<lfloor>log 2 \<bar>x\<bar>\<rfloor> = - int k"
    using assms by (intro floor_log2_eq) (simp_all add: powr_minus powr_realpow divide_inverse)
  moreover have "2 powr (real_of_int (- int k) - 52) = 1 / 2 ^ (52 + k)"
  proof -
    have "real_of_int (- int k) - 52 = - real (52 + k)"
      by simp
    then show ?thesis
      by (simp only: powr_minus powr_realpow) (simp add: powr_realpow divide_inverse)
  qed
  moreover have "x \<noteq> 0"
  proof
    assume "x = 0"
    with assms(1) have "1 / (2::real) ^ k \<le> 0" by simp
    moreover have "0 < 1 / (2::real) ^ k" by simp
    ultimately show False by linarith
  qed
  ultimately show ?thesis
    by (simp add: fl_def Let_def)
qed


lemma fl_examples:
  "fl 0 = 0" "fl 28 = 28" "fl 45 = 45" "fl 56 = 56" "fl (57 / 2) = 57 / 2" "fl (169 / 2) = 169 / 2"
proof -
  show "fl 0 = 0"
    by (simp add: fl_def)
  show "fl 28 = 28"
    by (subst fl_eval_ge1 [of 4]) (simp_all add: round_half_even_def)
  show "fl 45 = 45"
    by (subst fl_eval_ge1 [of 5]) (simp_all add: round_half_even_def)
  show "fl 56 = 56"
    by (subst fl_eval_ge1 [of 5]) (simp_all add: round_half_even_def)
  show "fl (57 / 2) = 57 / 2"
    by (subst fl_eval_ge1 [of 4]) (simp_all add: round_half_even_def)
  show "fl (169 / 2) = 169 / 2"
    by (subst fl_eval_ge1 [of 6]) (simp_all add: round_half_even_def)
qed

lemma py_sum_simps [simp]:
  "py_sum fs [] = 0" "py_sum fs [x] = x" "py_sum fs (x # y # zs) = fs (x # y # zs)"
  by (simp_all add: py_sum_def)

lemma bind_err_Inr [simp]: "bind_err (Inr x) f = f x"
  by (simp add: bind_err_def)

lemma bind_err_Inl [simp]: "bind_err (Inl e) f = Inl e"
  by (simp add: bind_err_def)

lemma bind_err_eq_Inr: "bind_err m f = Inr y \<longleftrightarrow> (\<exists>x. m = Inr x \<and> f x = Inr y)"
  by (cases m) simp_all

lemma py_min_Inr: "xs \<noteq> [] \<Longrightarrow> \<exists>m. py_min xs = Inr m"
  by (cases xs) (simp_all add: py_min_def)

lemma py_max_Inr: "xs \<noteq> [] \<Longrightarrow> \<exists>m. py_max xs = Inr m"
  by (cases xs) (simp_all add: py_max_def)

lemma py_div_Inr: "0 < n \<Longrightarrow> py_div a n = Inr (a / real n)"
  by (simp add: py_div_def)

lemma timedelta_Inr: "\<bar>d\<bar> \<le> 999999999 \<Longrightarrow> timedelta d = Inr d"
  by (simp add: timedelta_def)

lemma datetime_sub_Inr: "1 \<le> t - d \<Longrightarrow> t - d \<le> 3652059 \<Longrightarrow> datetime_sub t d = Inr (t - d)"
  by (simp add: datetime_sub_def)

lemma range_len_pos: "0 < points \<Longrightarrow> range_len points = nat points"
  by (simp add: range_len_def)

lemma range_len_nonpos: "points \<le> 0 \<Longrightarrow> range_len points = 0"
  by (simp add: range_len_def)

lemma clamp_bounds:
  fixes x :: real
  shows "0.05 \<le> max 0.05 (min 0.85 x)" and "max 0.05 (min 0.85 x) \<le> 0.85"
  unfolding max_def min_def by auto

lemma map_nthD:
  assumes "map f xs = ys" and "i < length ys"
  shows "xs ! i \<in> set xs" and "f (xs ! i) = ys ! i"
  using assms by auto



subsection \<open>The generation loop\<close>

text \<open>
  After \<open>n\<close> iterations the loop has appended \<open>n\<close> observations, the \<open>i\<close>-th built
  from the calls \<open>4 * i\<close> to \<open>4 * i + 3\<close> of \<^verbatim>\<open>random.uniform\<close>; \<^verbatim>\<open>temp_list\<close> and
  \<^verbatim>\<open>ndvi_list\<close> hold the temperatures and the vegetation indices of \<^verbatim>\<open>results\<close>.
\<close>

lemma gen_step_sel:
  "calls (gen_step rng st) = calls st + 4"
  "results (gen_step rng st) = results st @ [gen_point rng (calls st)]"
  "temp_list (gen_step rng st) = temp_list st @ [lst (gen_point rng (calls st))]"
  "ndvi_list (gen_step rng st) = ndvi_list st @ [ndvi (gen_point rng (calls st))]"
  by (simp_all add: gen_step_def Let_def)

lemma gen_loop_results:
  "results (gen_loop n rng st) = results st @ map (\<lambda>i. gen_point rng (calls st + 4 * i)) [0..<n]"
proof (induction n arbitrary: st)
  case 0
  show ?case by simp
next
  case (Suc n)
  have "map (\<lambda>i. gen_point rng (calls st + 4 * i)) [0..<Suc n]
        = gen_point rng (calls st) # map (\<lambda>i. gen_point rng (calls st + 4 + 4 * i)) [0..<n]"
    by (simp add: upt_conv_Cons map_Suc_upt[symmetric] add.assoc del: upt_Suc)
  then show ?case
    using Suc.IH [of "gen_step rng st"] by (simp add: gen_step_sel del: upt_Suc)
qed

lemma gen_loop_temp_list:
  "temp_list (gen_loop n rng st) = temp_list st @ map lst (drop (length (results st)) (results (gen_loop n rng st)))"
  by (induction n arbitrary: st) (simp_all add: gen_step_sel gen_loop_results)

lemma gen_loop_ndvi_list:
  "ndvi_list (gen_loop n rng st) = ndvi_list st @ map ndvi (drop (length (results st)) (results (gen_loop n rng st)))"
  by (induction n arbitrary: st) (simp_all add: gen_step_sel gen_loop_results)

lemma generate_results:
  "results (generate rng points) = map (\<lambda>i. gen_point rng (4 * i)) [0..<range_len points]"
  by (simp add: generate_def gen_loop_results gen_init_def)

lemma generate_temp_list: "temp_list (generate rng points) = map lst (results (generate rng points))"
  using gen_loop_temp_list [of "range_len points" rng gen_init]
  by (simp add: generate_def gen_init_def)

lemma generate_ndvi_list: "ndvi_list (generate rng points) = map ndvi (results (generate rng points))"
  using gen_loop_ndvi_list [of "range_len points" rng gen_init]
  by (simp add: generate_def gen_init_def)

lemma length_generate: "length (results (generate rng points)) = range_len points"
  by (simp add: generate_results)

lemma results_generate_1: "results (generate rng 1) = [gen_point rng 0]"
  by (simp add: generate_results range_len_def)

lemma results_generate_2: "results (generate rng 2) = [gen_point rng 0, gen_point rng 4]"
  by (simp add: generate_results range_len_def upt_conv_Cons)

lemma results_generate_3:
  "results (generate rng 3) = [gen_point rng 0, gen_point rng 4, gen_point rng 8]"
  by (simp add: generate_results range_len_def upt_conv_Cons)

lemma gen_point_sel:
  "lst (gen_point rng k) = py_round (rng (k + 2) 28 45) 2"
  "ndvi (gen_point rng k) =
     max 0.05 (min 0.85 (py_round (rng (k + 3) 0.1 0.8 * (1 - (lst (gen_point rng k) - 28) / 20)) 3))"
  "zone (gen_point rng k) = zone_of (lst (gen_point rng k))"
  "vegetation (gen_point rng k) = classify_vegetation (ndvi (gen_point rng k))"
  "color (gen_point rng k) = get_zone_color (zone (gen_point rng k))"
  "severity (gen_point rng k) = get_severity (zone (gen_point rng k))"
  "recommendation (gen_point rng k) = get_recommendation (zone (gen_point rng k)) (ndvi (gen_point rng k))"
  "uhi_intensity (gen_point rng k) = 0"
  by (simp_all add: gen_point_def Let_def)

lemma ndvi_gen_point:
  "ndvi (gen_point rng k) =
     max 0.05 (min 0.85 (py_round (rng (k + 3) 0.1 0.8 * (1 - (py_round (rng (k + 2) 28 45) 2 - 28) / 20)) 3))"
  by (simp add: gen_point_def Let_def)

lemma classified_gen_point: "classified (gen_point rng k)"
  unfolding classified_def
  using clamp_bounds by (simp add: gen_point_sel(2-7))

lemma classified_generate: "q \<in> set (results (generate rng points)) \<Longrightarrow> classified q"
  by (auto simp: generate_results classified_gen_point)

lemma classified_update: "classified q \<Longrightarrow> classified (q\<lparr>uhi_intensity := v\<rparr>)"
  by (simp add: classified_def)

lemma zone_of_cases: "zone_of t = 0 \<or> zone_of t = 1 \<or> zone_of t = 2"
  by (simp add: zone_of_def)

lemma zone_count_sum:
  "\<forall>p\<in>set ps. zone p = 0 \<or> zone p = 1 \<or> zone p = 2 \<Longrightarrow>
   zone_count 0 ps + zone_count 1 ps + zone_count 2 ps = int (length ps)"
  unfolding zone_count_def by (induction ps) auto

subsection \<open>Aggregation\<close>

lemma update_uhi_map [simp]:
  "map lst (update_uhi m ps) = map lst ps"
  "map ndvi (update_uhi m ps) = map ndvi ps"
  "map zone (update_uhi m ps) = map zone ps"
  "map vegetation (update_uhi m ps) = map vegetation ps"
  "map color (update_uhi m ps) = map color ps"
  "map severity (update_uhi m ps) = map severity ps"
  "map recommendation (update_uhi m ps) = map recommendation ps"
  "map uhi_intensity (update_uhi m ps) = map (intensity m) ps"
  "length (update_uhi m ps) = length ps"
  by (simp_all add: update_uhi_def)

lemma intensity_update [simp]:
  "intensity m (q\<lparr>uhi_intensity := v\<rparr>) = intensity m q"
  "deviation m (q\<lparr>uhi_intensity := v\<rparr>) = deviation m q"
  by (simp_all add: intensity_def deviation_def)

lemma update_uhi_idem: "update_uhi m (update_uhi m' rs) = update_uhi m rs"
  by (simp add: update_uhi_def)



lemma compute_statistics_Inr:
  assumes "temps \<noteq> []" "ndvis \<noteq> []" "uhis \<noteq> []"
    and "\<bar>days\<bar> \<le> 999999999" "1 \<le> clock 0 - days" "clock 0 - days \<le> 3652059"
  shows "\<exists>stats. compute_statistics clock points days ps temps ndvis uhis mean_temp = Inr stats"
proof -
  obtain tmin tmax nmin nmax umin umax where
    "py_min temps = Inr tmin" "py_max temps = Inr tmax"
    "py_min ndvis = Inr nmin" "py_max ndvis = Inr nmax"
    "py_min uhis = Inr umin" "py_max uhis = Inr umax"
    using assms(1-3) py_min_Inr py_max_Inr by metis
  moreover have "0 < length temps" "0 < length ndvis" "0 < length uhis"
    using assms(1-3) by simp_all
  ultimately show ?thesis
    using assms(4-6)
    by (simp add: compute_statistics_def py_div_Inr timedelta_Inr datetime_sub_Inr)
qed

lemma compute_statistics_counts:
  assumes "compute_statistics clock points days ps temps ndvis uhis mean_temp = Inr stats"
  shows "total_points stats = points"
    and "high_heat_zones stats = zone_count 0 ps"
    and "medium_heat_zones stats = zone_count 1 ps"
    and "low_heat_zones stats = zone_count 2 ps"
  using assms unfolding compute_statistics_def bind_err_eq_Inr by auto

lemma compute_statistics_days:
  assumes "compute_statistics clock points days ps temps ndvis uhis mean_temp = Inr stats"
  shows "\<bar>days\<bar> \<le> 999999999 \<and> 1 \<le> clock 0 - days \<and> clock 0 - days \<le> 3652059
    \<and> start_date (date_range stats) = clock 0 - days"
  using assms unfolding compute_statistics_def bind_err_eq_Inr
  by (auto simp: timedelta_def datetime_sub_def Let_def split: if_splits)

lemma analyze_body_empty:
  "points \<le> 0 \<Longrightarrow> analyze_body fs rng clock points days = Inl ZeroDivisionError"
  by (simp add: analyze_body_def Let_def generate_temp_list generate_results range_len_nonpos
      py_div_def bind_err_def)

lemma mean_temp_generate:
  assumes "0 < points"
  shows "py_div (py_sum fs (map fl (temp_list (generate rng points))))
           (length (temp_list (generate rng points)))
         = Inr (py_sum fs (map fl (map lst (results (generate rng points))))
                  / real (length (map lst (results (generate rng points)))))"
  using assms by (simp add: py_div_Inr generate_temp_list length_generate range_len_pos)

lemma analyze_body_InrD:
  assumes "analyze_body fs rng clock points days = Inr (ps, stats)"
  shows "0 < points"
    and "ps = update_uhi (float_mean fs (map lst (results (generate rng points))))
               (results (generate rng points))"
    and "compute_statistics clock points days ps (temp_list (generate rng points))
           (ndvi_list (generate rng points))
           (map (intensity (float_mean fs (map lst (results (generate rng points)))))
              (results (generate rng points)))
           (float_mean fs (map lst (results (generate rng points)))) = Inr stats"
proof -
  show pos: "0 < points"
    using assms analyze_body_empty [of points fs rng clock days] by (cases "0 < points") simp_all
  note m = mean_temp_generate [OF pos, of fs rng]
  from assms show "ps = update_uhi (float_mean fs (map lst (results (generate rng points))))
               (results (generate rng points))"
   and "compute_statistics clock points days ps (temp_list (generate rng points))
           (ndvi_list (generate rng points))
           (map (intensity (float_mean fs (map lst (results (generate rng points)))))
              (results (generate rng points)))
           (float_mean fs (map lst (results (generate rng points)))) = Inr stats"
    unfolding analyze_body_def Let_def m float_mean_def
    by (auto simp: bind_err_eq_Inr)
qed

lemma analyze_body_Inr:
  assumes "0 < points" "\<bar>days\<bar> \<le> 999999999" "1 \<le> clock 0 - days" "clock 0 - days \<le> 3652059"
  shows "\<exists>ps stats. analyze_body fs rng clock points days = Inr (ps, stats)"
proof -
  have len: "length (results (generate rng points)) = nat points" "0 < nat points"
    using assms(1) by (simp_all add: length_generate range_len_pos)
  then have ne: "results (generate rng points) \<noteq> []"
    by auto
  let ?m = "float_mean fs (map lst (results (generate rng points)))"
  have "\<exists>stats. compute_statistics clock points days (update_uhi ?m (results (generate rng points)))
      (temp_list (generate rng points)) (ndvi_list (generate rng points))
      (map (intensity ?m) (results (generate rng points))) ?m = Inr stats"
    using ne assms(2-4)
    by (intro compute_statistics_Inr) (simp_all add: generate_temp_list generate_ndvi_list)
  then show ?thesis
    unfolding analyze_body_def Let_def mean_temp_generate [OF assms(1)] float_mean_def
    by auto
qed

subsection \<open>The handler\<close>

text \<open>
  A response is a success exactly when both parameters parse, \<open>points\<close> is positive
  and the start date can be represented; its data are then the generated observations
  with the intensities of the second pass.
\<close>

lemma analyze_uhi_SuccessD:
  assumes "analyze_uhi py_int fs rng clock pa da = Success ps stats"
  shows "\<exists>points days. request_arg py_int pa 100 = Inr points \<and> request_arg py_int da 30 = Inr days
     \<and> analyze_body fs rng clock points days = Inr (ps, stats)"
  using assms unfolding analyze_uhi_def respond_def
  by (auto simp: bind_err_eq_Inr split: sum.splits prod.splits)

lemma analyze_uhi_parsed:
  assumes "request_arg py_int pa 100 = Inr points" "request_arg py_int da 30 = Inr days"
  shows "analyze_uhi py_int fs rng clock pa da = respond (analyze_body fs rng clock points days)"
  using assms by (simp add: analyze_uhi_def)

lemma analyze_uhi_Success:
  assumes "request_arg py_int pa 100 = Inr points" "request_arg py_int da 30 = Inr days"
    and "0 < points" "\<bar>days\<bar> \<le> 999999999" "1 \<le> clock 0 - days" "clock 0 - days \<le> 3652059"
  shows "is_Success (analyze_uhi py_int fs rng clock pa da)"
  using analyze_body_Inr [of points days clock fs rng] assms
  by (auto simp: analyze_uhi_def respond_def)

lemma analyze_uhi_nonpos:
  assumes "request_arg py_int pa 100 = Inr points" "request_arg py_int da 30 = Inr days" "points \<le> 0"
  shows "analyze_uhi py_int fs rng clock pa da = Failure ZeroDivisionError"
  using assms by (simp add: analyze_uhi_def analyze_body_empty respond_def)

lemma analyze_uhi_bad_points:
  "py_int s = Inl msg \<Longrightarrow> analyze_uhi py_int fs rng clock (Some s) da = Failure (ValueError msg)"
  by (simp add: analyze_uhi_def request_arg_def respond_def)

lemma analyze_uhi_bad_days:
  "request_arg py_int pa 100 = Inr points \<Longrightarrow> py_int s = Inl msg \<Longrightarrow>
   analyze_uhi py_int fs rng clock pa (Some s) = Failure (ValueError msg)"
  by (simp add: analyze_uhi_def request_arg_def respond_def)

lemma analyze_uhi_data:
  assumes "analyze_uhi py_int fs rng clock pa da = Success ps stats"
  obtains points rs where "request_arg py_int pa 100 = Inr points" "0 < points"
    and "rs = results (generate rng points)" "length rs = nat points"
    and "ps = update_uhi (float_mean fs (map lst rs)) rs"
    and "total_points stats = points"
    and "high_heat_zones stats = zone_count 0 ps"
    and "medium_heat_zones stats = zone_count 1 ps"
    and "low_heat_zones stats = zone_count 2 ps"
proof -
  from analyze_uhi_SuccessD [OF assms] obtain points days where
    p: "request_arg py_int pa 100 = Inr points"
    and b: "analyze_body fs rng clock points days = Inr (ps, stats)"
    by blast
  note d = analyze_body_InrD [OF b]
  have "length (results (generate rng points)) = nat points"
    using d(1) by (simp add: length_generate range_len_pos)
  then show thesis
    using that [of points "results (generate rng points)"] p d(1,2) compute_statistics_counts [OF d(3)]
    by simp
qed

lemma analyze_uhi_data_eq:
  assumes "request_arg py_int pa 100 = Inr points" "request_arg py_int da 30 = Inr days"
    and "0 < points" "\<bar>days\<bar> \<le> 999999999" "1 \<le> clock 0 - days" "clock 0 - days \<le> 3652059"
  shows "analyze_uhi py_int fs rng clock pa da =
           Success (data (analyze_uhi py_int fs rng clock pa da)) (statistics (analyze_uhi py_int fs rng clock pa da))"
    and "data (analyze_uhi py_int fs rng clock pa da) =
           update_uhi (float_mean fs (map lst (results (generate rng points))))
             (results (generate rng points))"
proof -
  show s: "analyze_uhi py_int fs rng clock pa da =
           Success (data (analyze_uhi py_int fs rng clock pa da)) (statistics (analyze_uhi py_int fs rng clock pa da))"
    using analyze_uhi_Success [of py_int pa points da days clock fs rng] assms by simp
  from analyze_uhi_data [OF s] assms(1)
  show "data (analyze_uhi py_int fs rng clock pa da) =
           update_uhi (float_mean fs (map lst (results (generate rng points))))
             (results (generate rng points))"
    by (metis Inr_inject)
qed

lemma analyze_uhi_start_date:
  assumes "request_arg py_int da 30 = Inr days"
    and "analyze_uhi py_int fs rng clock pa da = Success ps stats"
  shows "start_date (date_range stats) = clock 0 - days"
proof -
  from analyze_uhi_SuccessD [OF assms(2)] assms(1)
  obtain points where "analyze_body fs rng clock points days = Inr (ps, stats)"
    by auto
  from compute_statistics_days [OF analyze_body_InrD(3) [OF this]]
  show ?thesis
    by simp
qed

lemma data_classified:
  assumes "analyze_uhi py_int fs rng clock pa da = Success ps stats" "p \<in> set ps"
  shows "classified p"
proof -
  from assms(1) obtain points rs where
    "rs = results (generate rng points)"
    "ps = update_uhi (float_mean fs (map lst rs)) rs"
    by (rule analyze_uhi_data)
  with assms(2) show ?thesis
    by (auto simp: update_uhi_def classified_update classified_generate)
qed

lemma data_mean:
  assumes "analyze_uhi py_int fs rng clock pa da = Success ps stats"
  shows "ps = update_uhi (float_mean fs (map lst ps)) ps"
proof -
  from assms obtain points rs where *:
    "0 < points" "length rs = nat points"
    "ps = update_uhi (float_mean fs (map lst rs)) rs"
    by (rule analyze_uhi_data)
  have "map lst ps = map lst rs"
    by (subst *(3)) simp
  then have "update_uhi (float_mean fs (map lst ps)) ps
      = update_uhi (float_mean fs (map lst rs)) (update_uhi (float_mean fs (map lst rs)) rs)"
    using *(3) by simp
  then show "ps = update_uhi (float_mean fs (map lst ps)) ps"
    using *(3) by (simp add: update_uhi_idem)
qed

lemma data_intensity:
  assumes "analyze_uhi py_int fs rng clock pa da = Success ps stats" and "p \<in> set ps"
  shows "uhi_intensity p = py_round (deviation (float_mean fs (map lst ps)) p) 2"
proof -
  have "p \<in> set (update_uhi (float_mean fs (map lst ps)) ps)"
    using data_mean [OF assms(1)] assms(2) by simp
  then show ?thesis
    by (auto simp: update_uhi_def intensity_def deviation_def)
qed

subsection \<open>The example requests\<close>

lemma decimal_int_examples:
  "decimal_int ''3'' = Inr 3" "decimal_int ''1'' = Inr 1" "decimal_int ''0'' = Inr 0"
  "decimal_int ''-5'' = Inr (- 5)" "decimal_int ''abc'' = Inl (invalid_literal ''abc'')"
  "decimal_int ''2'' = Inr 2"
  by (simp_all add: decimal_int_def signed_digits_def digit_of_def)

lemma request_arg_examples:
  "request_arg decimal_int (Some ''3'') 100 = Inr 3"
  "request_arg decimal_int (Some ''1'') 100 = Inr 1"
  "request_arg decimal_int (Some ''0'') 100 = Inr 0"
  "request_arg decimal_int (Some ''-5'') 30 = Inr (- 5)"
  "request_arg py_int None d = Inr d"
  by (simp_all add: request_arg_def decimal_int_examples)

lemma demo3_facts:
  "demo3 = Success (data demo3) (statistics demo3)"
  "map lst (data demo3) = [45, 39, 28]"
  "map ndvi (data demo3) = [0.1, 0.05, 0.1]"
proof -
  have *: "request_arg decimal_int (Some ''3'') 100 = Inr 3" "request_arg decimal_int None 30 = Inr 30"
    "(0::int) < 3" "\<bar>30::int\<bar> \<le> 999999999" "1 \<le> clock_2026 0 - 30" "clock_2026 0 - 30 \<le> 3652059"
    by (simp_all add: request_arg_examples clock_2026_def)
  note d = analyze_uhi_data_eq [where py_int = decimal_int and pa = "Some ''3''" and points = 3
      and da = None and days = 30 and clock = clock_2026 and fs = naive_sum and rng = rng_demo, OF *, folded demo3_def]
  show "demo3 = Success (data demo3) (statistics demo3)"
    by (rule d(1))
  have l: "map lst (results (generate rng_demo 3)) = [45, 39, 28]"
    by (simp add: results_generate_3 gen_point_sel(1) rng_demo_def py_round_def round_half_even_def)
  show "map lst (data demo3) = [45, 39, 28]"
    by (simp add: d(2) l)
  have "map ndvi (results (generate rng_demo 3)) = [0.1, 0.05, 0.1]"
    by (simp add: results_generate_3 ndvi_gen_point rng_demo_def py_round_def round_half_even_def)
  then show "map ndvi (data demo3) = [0.1, 0.05, 0.1]"
    by (simp add: d(2))
qed

lemma demo3_request:
  "analyze_uhi decimal_int naive_sum rng_demo clock_2026 (Some ''3'') None
     = Success (data demo3) (statistics demo3)"
  by (rule trans [OF demo3_def [symmetric] demo3_facts(1)])

lemma demo1_facts:
  "demo1 = Success (data demo1) (statistics demo1)"
  "map lst (data demo1) = [45]"
  "map ndvi (data demo1) = [0.1]"
  "map vegetation (data demo1) = [''Water/Built-up'']"
proof -
  have *: "request_arg decimal_int (Some ''1'') 100 = Inr 1" "request_arg decimal_int None 30 = Inr 30"
    "(0::int) < 1" "\<bar>30::int\<bar> \<le> 999999999" "1 \<le> clock_2026 0 - 30" "clock_2026 0 - 30 \<le> 3652059"
    by (simp_all add: request_arg_examples clock_2026_def)
  note d = analyze_uhi_data_eq [where py_int = decimal_int and pa = "Some ''1''" and points = 1
      and da = None and days = 30 and clock = clock_2026 and fs = naive_sum and rng = rng_demo, OF *, folded demo1_def]
  show "demo1 = Success (data demo1) (statistics demo1)"
    by (rule d(1))
  show "map lst (data demo1) = [45]"
    by (simp add: d(2) results_generate_1 gen_point_sel(1) rng_demo_def py_round_def round_half_even_def)
  have n: "ndvi (gen_point rng_demo 0) = 1 / 10"
    by (simp add: ndvi_gen_point rng_demo_def py_round_def round_half_even_def)
  show "map ndvi (data demo1) = [0.1]"
    by (simp add: d(2) results_generate_1 n)
  show "map vegetation (data demo1) = [''Water/Built-up'']"
    by (simp add: d(2) results_generate_1 gen_point_sel(4) n classify_vegetation_def)
qed






text \<open>
  At the tie the model follows the binary64 arithmetic of the program: the intensities
  are -0.05 and 0.04, where exact arithmetic would give -0.04 and 0.04.
\<close>

lemma tie2_mean: "float_mean naive_sum [28, 2809 / 100] = 1973491430462587 / 70368744177664"
proof -
  have t: "fl (2809 / 100) = 7906632095802327 / 281474976710656"
    by (subst fl_eval_ge1 [of 4]) (simp_all add: round_half_even_def)
  have s: "fl (15787931443700695 / 281474976710656) = 1973491430462587 / 35184372088832"
    by (subst fl_eval_ge1 [of 5]) (simp_all add: round_half_even_def)
  have m: "fl (1973491430462587 / 70368744177664) = 1973491430462587 / 70368744177664"
    by (subst fl_eval_ge1 [of 4]) (simp_all add: round_half_even_def)
  show ?thesis
    by (simp add: float_mean_def naive_sum_def fl_examples t s m)
qed

lemma tie2_facts:
  "tie2 = Success (data tie2) (statistics tie2)"
  "map lst (data tie2) = [28, 28.09]"
  "map uhi_intensity (data tie2) = [- 0.05, 0.04]"
proof -
  have *: "request_arg decimal_int (Some ''2'') 100 = Inr 2" "request_arg decimal_int None 30 = Inr 30"
    "(0::int) < 2" "\<bar>30::int\<bar> \<le> 999999999" "1 \<le> clock_2026 0 - 30" "clock_2026 0 - 30 \<le> 3652059"
    by (simp_all add: request_arg_def decimal_int_examples clock_2026_def)
  note d = analyze_uhi_data_eq [where py_int = decimal_int and pa = "Some ''2''" and points = 2
      and da = None and days = 30 and clock = clock_2026 and fs = naive_sum and rng = rng_tie, OF *, folded tie2_def]
  show "tie2 = Success (data tie2) (statistics tie2)"
    by (rule d(1))
  have l: "lst (gen_point rng_tie 0) = 28" "lst (gen_point rng_tie 4) = 2809 / 100"
    by (simp_all add: gen_point_sel(1) rng_tie_def py_round_def round_half_even_def)
  show "map lst (data tie2) = [28, 28.09]"
    by (simp add: d(2) results_generate_2 l)
  have t: "fl (2809 / 100) = 7906632095802327 / 281474976710656"
    by (subst fl_eval_ge1 [of 4]) (simp_all add: round_half_even_def)
  have v: "fl (- (3166593487995 / 70368744177664)) = - (3166593487995 / 70368744177664)"
    "fl (12666373951979 / 281474976710656) = 12666373951979 / 281474976710656"
    by (subst fl_eval_lt1 [of 5]; simp add: round_half_even_def)+
  have i: "py_round (- (3166593487995 / 70368744177664)) 2 = - (5 / 100)"
    "py_round (12666373951979 / 281474976710656) 2 = 4 / 100"
    by (simp_all add: py_round_def round_half_even_def)
  show "map uhi_intensity (data tie2) = [- 0.05, 0.04]"
    by (simp add: d(2) results_generate_2 l intensity_def deviation_def tie2_mean fl_examples t v i)
qed

lemma neg_days_facts:
  "neg_days = Success (data neg_days) (statistics neg_days)"
  "start_date (date_range (statistics neg_days)) = 739929"
proof -
  have *: "request_arg decimal_int (Some ''1'') 100 = Inr 1" "request_arg decimal_int (Some ''-5'') 30 = Inr (- 5)"
    "(0::int) < 1" "\<bar>- 5::int\<bar> \<le> 999999999" "1 \<le> clock_2026 0 - (- 5)" "clock_2026 0 - (- 5) \<le> 3652059"
    by (simp_all add: request_arg_examples clock_2026_def)
  note d = analyze_uhi_data_eq [where py_int = decimal_int and pa = "Some ''1''" and points = 1
      and da = "Some ''-5''" and days = "- 5" and clock = clock_2026 and fs = naive_sum and rng = rng_demo, OF *, folded neg_days_def]
  show s: "neg_days = Success (data neg_days) (statistics neg_days)"
    by (rule d(1))
  from analyze_uhi_SuccessD [OF s [unfolded neg_days_def], folded neg_days_def] *(2)
  obtain points where "analyze_body naive_sum rng_demo clock_2026 points (- 5) = Inr (data neg_days, statistics neg_days)"
    by auto
  from compute_statistics_days [OF analyze_body_InrD(3) [OF this]]
  show "start_date (date_range (statistics neg_days)) = 739929"
    by (simp add: clock_2026_def)
qed

section \<open>The claims\<close>

text \<open>
  Claim C1. With \<^verbatim>\<open>points=0\<close> the loop appends nothing, and line 148 divides
  \<^verbatim>\<open>sum(temp_list)\<close> by \<^verbatim>\<open>len(temp_list) = 0\<close>: the mean over zero elements is
  attempted, \<^verbatim>\<open>ZeroDivisionError\<close> is raised and the handler answers with
  \<^verbatim>\<open>success: false\<close> and the error "division by zero". The claim asks for a successful
  result with an empty observation sequence; the code does not produce one, whatever the
  source of randomness and the clock.
\<close>

theorem zero_points_division_by_zero:
  "analyze_uhi decimal_int fs rng clock (Some ''0'') None = Failure ZeroDivisionError"
  by (rule analyze_uhi_nonpos [of _ _ 0 _ 30]) (simp_all add: request_arg_examples)

text \<open>
  Claim C2. For every \<open>points \<ge> 0\<close>, a successful result holds exactly \<open>points\<close>
  observations.
\<close>

theorem observation_count: 
  assumes "request_arg py_int pa 100 = Inr points" and "0 \<le> points"
    and "analyze_uhi py_int fs rng clock pa da = Success ps stats"
  shows "int (length ps) = points"
proof -
  from assms(3) obtain points' rs where
    "request_arg py_int pa 100 = Inr points'" "0 < points'" "length rs = nat points'"
    "ps = update_uhi (float_mean fs (map lst rs)) rs"
    by (rule analyze_uhi_data)
  with assms(1) show ?thesis
    by simp
qed

text \<open>
  The request \<^verbatim>\<open>?points=3\<close> succeeds with three observations.
\<close>

theorem observation_count_witness:
  "request_arg decimal_int (Some ''3'') 100 = Inr 3 \<and> (0::int) \<le> 3 \<and>
   demo3 = Success (data demo3) (statistics demo3) \<and> int (length (data demo3)) = 3"
  using observation_count [OF request_arg_examples(1) _ demo3_request] request_arg_examples(1) demo3_facts(1)
  by simp

text \<open>
  Claim C3, as stated, fails. One observation with temperature 45.0 and vegetation index
  0.1 (the request \<open>demo1\<close>) has the vegetation category "Water/Built-up", since
  \<open>0.1 < 0.2\<close>, and not "Barren/Sparse".
\<close>

theorem single_observation_vegetation_counterexample:
  "demo1 = Success (data demo1) (statistics demo1) \<and>
   map lst (data demo1) = [45] \<and> map ndvi (data demo1) = [0.1] \<and>
   map vegetation (data demo1) = [''Water/Built-up''] \<and>
   map vegetation (data demo1) \<noteq> [''Barren/Sparse'']"
  by (simp add: demo1_facts(2-4)) (rule demo1_facts(1))

text \<open>
  Claim C3, amended. A result of one observation with temperature 45.0 and vegetation
  index 0.1 has zone 0, vegetation category "Water/Built-up", color "#ef4444", severity
  "High", the urgent-greening recommendation and heat intensity 0.
\<close>

theorem single_observation_example:
  assumes "analyze_uhi py_int fs rng clock pa da = Success [p] stats"
    and "lst p = 45" and "ndvi p = 0.1"
  shows "zone p = 0 \<and> vegetation p = ''Water/Built-up'' \<and> color p = ''#ef4444'' \<and>
         severity p = ''High'' \<and>
         recommendation p = ''Plant more trees and create green spaces urgently'' \<and>
         uhi_intensity p = 0"
proof -
  have c: "classified p"
    using data_classified [OF assms(1)] by simp
  have z: "zone p = 0"
    using c assms(2) by (simp add: classified_def zone_of_def)
  have "uhi_intensity p = py_round (deviation (float_mean fs (map lst [p])) p) 2"
    by (rule data_intensity [OF assms(1)]) simp
  then have "uhi_intensity p = 0"
    by (simp add: assms(2) float_mean_def deviation_def fl_examples py_round_def round_half_even_def)
  moreover have "vegetation p = ''Water/Built-up''"
    using c assms(3) by (simp add: classified_def classify_vegetation_def)
  moreover have "color p = ''#ef4444''" "severity p = ''High''"
    using c z by (simp_all add: classified_def get_zone_color_def colors_def get_severity_def severity_map_def)
  moreover have "recommendation p = ''Plant more trees and create green spaces urgently''"
    using c z assms(3) by (simp add: classified_def get_recommendation_def)
  ultimately show ?thesis
    using z by simp
qed

text \<open>
  The request \<open>demo1\<close> is such a result.
\<close>

theorem single_observation_example_witness:
  "demo1 = Success [data demo1 ! 0] (statistics demo1) \<and>
   lst (data demo1 ! 0) = 45 \<and> ndvi (data demo1 ! 0) = 0.1 \<and>
   zone (data demo1 ! 0) = 0 \<and> vegetation (data demo1 ! 0) = ''Water/Built-up'' \<and>
   color (data demo1 ! 0) = ''#ef4444'' \<and> severity (data demo1 ! 0) = ''High'' \<and>
   recommendation (data demo1 ! 0) = ''Plant more trees and create green spaces urgently'' \<and>
   uhi_intensity (data demo1 ! 0) = 0"
proof -
  have "length (data demo1) = 1"
    using demo1_facts(2) by (metis length_map length_Cons list.size(3) One_nat_def)
  then have "data demo1 = [data demo1 ! 0]"
    by (cases "data demo1") simp_all
  with demo1_facts(1) have s: "demo1 = Success [data demo1 ! 0] (statistics demo1)"
    by simp
  have l: "lst (data demo1 ! 0) = 45"
    using map_nthD(2) [OF demo1_facts(2), of 0] by simp
  have n: "ndvi (data demo1 ! 0) = 0.1"
    using map_nthD(2) [OF demo1_facts(3), of 0] by simp
  have r: "analyze_uhi decimal_int naive_sum rng_demo clock_2026 (Some ''1'') None
      = Success [data demo1 ! 0] (statistics demo1)"
    by (rule trans [OF demo1_def [symmetric] s])
  from single_observation_example [OF r l n] s l n
  show ?thesis
    by simp
qed

text \<open>
  Claim C4, as stated, fails for a negative \<^verbatim>\<open>days\<close>: the request
  \<^verbatim>\<open>?points=1&days=-5\<close> is not rejected. It succeeds, with a start date five days after
  the current date.
\<close>

theorem negative_days_accepted_counterexample:
  "decimal_int ''-5'' = Inr (- 5) \<and> neg_days = Success (data neg_days) (statistics neg_days) \<and>
   start_date (date_range (statistics neg_days)) = clock_2026 0 + 5"
  by (simp add: decimal_int_examples neg_days_facts(2) clock_2026_def) (rule neg_days_facts(1))

text \<open>
  Claim C4, amended. A \<^verbatim>\<open>points\<close> or \<^verbatim>\<open>days\<close> parameter on which \<^verbatim>\<open>int\<close> raises a
  \<^verbatim>\<open>ValueError\<close> makes the request fail with that error, whose message is the error text
  of the response, whatever the other inputs are; \<^verbatim>\<open>points\<close> is read first. No response
  holds a negative-size observation set: a successful result has exactly \<open>points\<close>
  observations. A negative \<^verbatim>\<open>days\<close> is not rejected: with a positive \<open>points\<close> and a start
  date that \<^verbatim>\<open>datetime\<close> can represent the request succeeds, and its start date is the
  current date minus \<open>days\<close>, a date after the current one.
\<close>

theorem invalid_input_handling:
  "(py_int s = Inl msg \<longrightarrow>
      analyze_uhi py_int fs rng clock (Some s) da = Failure (ValueError msg)) \<and>
   (request_arg py_int pa 100 = Inr points \<and> py_int s = Inl msg \<longrightarrow>
      analyze_uhi py_int fs rng clock pa (Some s) = Failure (ValueError msg)) \<and>
   (request_arg py_int pa 100 = Inr points \<and>
    analyze_uhi py_int fs rng clock pa da = Success ps stats \<longrightarrow>
      int (length ps) = points) \<and>
   (request_arg py_int pa 100 = Inr points \<and> request_arg py_int da 30 = Inr days \<and>
    0 < points \<and> - 999999999 \<le> days \<and> days < 0 \<and> 1 \<le> clock 0 - days \<and> clock 0 - days \<le> 3652059 \<longrightarrow>
      is_Success (analyze_uhi py_int fs rng clock pa da) \<and>
      start_date (date_range (statistics (analyze_uhi py_int fs rng clock pa da))) = clock 0 - days)"
proof (intro conjI impI)
  assume "py_int s = Inl msg"
  then show "analyze_uhi py_int fs rng clock (Some s) da = Failure (ValueError msg)"
    by (rule analyze_uhi_bad_points)
next
  assume "request_arg py_int pa 100 = Inr points \<and> py_int s = Inl msg"
  then show "analyze_uhi py_int fs rng clock pa (Some s) = Failure (ValueError msg)"
    by (simp add: analyze_uhi_bad_days)
next
  assume a: "request_arg py_int pa 100 = Inr points \<and>
    analyze_uhi py_int fs rng clock pa da = Success ps stats"
  then obtain points' rs where
    "request_arg py_int pa 100 = Inr points'" "0 < points'" "length rs = nat points'"
    "ps = update_uhi (float_mean fs (map lst rs)) rs"
    using analyze_uhi_data [of py_int fs rng clock pa da ps stats] by blast
  with a show "int (length ps) = points"
    by simp
next
  assume a: "request_arg py_int pa 100 = Inr points \<and> request_arg py_int da 30 = Inr days \<and>
    0 < points \<and> - 999999999 \<le> days \<and> days < 0 \<and> 1 \<le> clock 0 - days \<and> clock 0 - days \<le> 3652059"
  then have s: "is_Success (analyze_uhi py_int fs rng clock pa da)"
    using analyze_uhi_Success [of py_int pa points da days clock fs rng] by simp
  then show "is_Success (analyze_uhi py_int fs rng clock pa da)" .
  from s have "analyze_uhi py_int fs rng clock pa da
      = Success (data (analyze_uhi py_int fs rng clock pa da))
          (statistics (analyze_uhi py_int fs rng clock pa da))"
    by simp
  with a show "start_date (date_range (statistics (analyze_uhi py_int fs rng clock pa da)))
      = clock 0 - days"
    using analyze_uhi_start_date by blast
qed

text \<open>
  The four parts at concrete requests: \<^verbatim>\<open>?points=abc\<close>, \<^verbatim>\<open>?points=3&days=abc\<close>,
  \<^verbatim>\<open>?points=3\<close> and \<^verbatim>\<open>?points=1&days=-5\<close>.
\<close>

theorem invalid_input_handling_witness:
  "(decimal_int ''abc'' = Inl (invalid_literal ''abc'') \<and>
      analyze_uhi decimal_int naive_sum rng_demo clock_2026 (Some ''abc'') None
        = Failure (ValueError (invalid_literal ''abc''))) \<and>
   (request_arg decimal_int (Some ''3'') 100 = Inr 3 \<and>
      analyze_uhi decimal_int naive_sum rng_demo clock_2026 (Some ''3'') (Some ''abc'')
        = Failure (ValueError (invalid_literal ''abc''))) \<and>
   (demo3 = Success (data demo3) (statistics demo3) \<and> int (length (data demo3)) = 3) \<and>
   (request_arg decimal_int (Some ''1'') 100 = Inr 1 \<and> request_arg decimal_int (Some ''-5'') 30 = Inr (- 5) \<and>
    (0::int) < 1 \<and> - 999999999 \<le> (- 5::int) \<and> (- 5::int) < 0 \<and> 1 \<le> clock_2026 0 - (- 5) \<and>
    clock_2026 0 - (- 5) \<le> 3652059 \<and> is_Success neg_days \<and>
    start_date (date_range (statistics neg_days)) = clock_2026 0 - (- 5))"
proof -
  note t1 = invalid_input_handling [where py_int = decimal_int and s = "''abc''"
      and msg = "invalid_literal ''abc''" and fs = naive_sum and rng = rng_demo
      and clock = clock_2026 and da = None and pa = "Some ''3''" and points = 3
      and ps = "data demo3" and stats = "statistics demo3"]
  note t2 = invalid_input_handling [where py_int = decimal_int and s = "''abc''"
      and msg = "invalid_literal ''abc''" and fs = naive_sum and rng = rng_demo
      and clock = clock_2026 and da = "Some ''-5''" and pa = "Some ''1''" and points = 1
      and days = "- 5", folded neg_days_def]
  have c: "1 \<le> clock_2026 0 - (- 5)" "clock_2026 0 - (- 5) \<le> 3652059"
    by (simp_all add: clock_2026_def)
  show ?thesis
    using t1 t2 c demo3_request demo3_facts(1) request_arg_examples(1,2,4) decimal_int_examples(5)
    by simp
qed

text \<open>
  Claim C5. Every observation of a result has the zone of its temperature: 0 from 40
  upwards, 1 from 34 up to 40, 2 below 34; so its zone is 0, 1 or 2.
\<close>

theorem zone_thresholds:
  assumes "analyze_uhi py_int fs rng clock pa da = Success ps stats" and "p \<in> set ps"
  shows "(lst p \<ge> 40 \<longrightarrow> zone p = 0) \<and> (34 \<le> lst p \<and> lst p < 40 \<longrightarrow> zone p = 1) \<and>
         (lst p < 34 \<longrightarrow> zone p = 2) \<and> zone p \<in> {0, 1, 2}"
  using data_classified [OF assms] by (simp add: classified_def zone_of_def)

text \<open>
  The three observations of \<open>demo3\<close> have the temperatures 45, 39 and 28 and the
  zones 0, 1 and 2.
\<close>

theorem zone_thresholds_witness:
  "demo3 = Success (data demo3) (statistics demo3) \<and>
   data demo3 ! 0 \<in> set (data demo3) \<and> 40 \<le> lst (data demo3 ! 0) \<and> zone (data demo3 ! 0) = 0 \<and>
   data demo3 ! 1 \<in> set (data demo3) \<and> 34 \<le> lst (data demo3 ! 1) \<and> lst (data demo3 ! 1) < 40 \<and>
     zone (data demo3 ! 1) = 1 \<and>
   data demo3 ! 2 \<in> set (data demo3) \<and> lst (data demo3 ! 2) < 34 \<and> zone (data demo3 ! 2) = 2"
proof -
  have m: "data demo3 ! 0 \<in> set (data demo3)" "data demo3 ! 1 \<in> set (data demo3)"
    "data demo3 ! 2 \<in> set (data demo3)"
    using map_nthD(1) [OF demo3_facts(2)] by simp_all
  have l: "lst (data demo3 ! 0) = 45" "lst (data demo3 ! 1) = 39" "lst (data demo3 ! 2) = 28"
    using map_nthD(2) [OF demo3_facts(2), of 0] map_nthD(2) [OF demo3_facts(2), of 1]
      map_nthD(2) [OF demo3_facts(2), of 2] by simp_all
  have z: "zone (data demo3 ! 0) = 0" "zone (data demo3 ! 1) = 1" "zone (data demo3 ! 2) = 2"
    using zone_thresholds [OF demo3_request m(1)] zone_thresholds [OF demo3_request m(2)] zone_thresholds [OF demo3_request m(3)]
    unfolding l by simp_all
  show ?thesis
    unfolding l z using demo3_facts(1) m by simp
qed

text \<open>
  Claim C6. The vegetation category of an index: "Water/Built-up" below 0.2,
  "Barren/Sparse" from 0.2 up to 0.4, "Moderate Vegetation" from 0.4 up to 0.6 and
  "Dense Vegetation" from 0.6 upwards.
\<close>

theorem classify_vegetation_breakpoints:
  "(x < 0.2 \<longrightarrow> classify_vegetation x = ''Water/Built-up'') \<and>
   (0.2 \<le> x \<and> x < 0.4 \<longrightarrow> classify_vegetation x = ''Barren/Sparse'') \<and>
   (0.4 \<le> x \<and> x < 0.6 \<longrightarrow> classify_vegetation x = ''Moderate Vegetation'') \<and>
   (0.6 \<le> x \<longrightarrow> classify_vegetation x = ''Dense Vegetation'')"
  by (simp add: classify_vegetation_def)

text \<open>
  One index in each of the four ranges, two of them on a breakpoint.
\<close>

theorem classify_vegetation_breakpoints_witness:
  "((0.15::real) < 0.2 \<and> classify_vegetation 0.15 = ''Water/Built-up'') \<and>
   ((0.2::real) \<le> 0.2 \<and> (0.2::real) < 0.4 \<and> classify_vegetation 0.2 = ''Barren/Sparse'') \<and>
   ((0.4::real) \<le> 0.5 \<and> (0.5::real) < 0.6 \<and> classify_vegetation 0.5 = ''Moderate Vegetation'') \<and>
   ((0.6::real) \<le> 0.65 \<and> classify_vegetation 0.65 = ''Dense Vegetation'')"
  using classify_vegetation_breakpoints [of "0.15"] classify_vegetation_breakpoints [of "0.2"]
    classify_vegetation_breakpoints [of "0.5"] classify_vegetation_breakpoints [of "0.65"]
  by simp

text \<open>
  Claim C7. The recommendation: in zone 0 the urgent-greening text below 0.3 and the
  ventilation text otherwise; in zone 1 the increase-vegetation text below 0.4 and the
  maintain-and-monitor text otherwise; in zone 2 the maintenance text for every vegetation
  index.
\<close>

theorem get_recommendation_decision:
  "(ndvi_v < 0.3 \<longrightarrow>
      get_recommendation 0 ndvi_v = ''Plant more trees and create green spaces urgently'') \<and>
   (0.3 \<le> ndvi_v \<longrightarrow>
      get_recommendation 0 ndvi_v = ''Improve ventilation and add water features'') \<and>
   (ndvi_v < 0.4 \<longrightarrow>
      get_recommendation 1 ndvi_v = ''Increase vegetation cover and add shade structures'') \<and>
   (0.4 \<le> ndvi_v \<longrightarrow>
      get_recommendation 1 ndvi_v = ''Maintain current green cover and monitor temperature'') \<and>
   get_recommendation 2 ndvi_v = ''Maintain existing vegetation and urban planning''"
  by (simp add: get_recommendation_def)

text \<open>
  The branches at the indices 0.1, 0.3 and 0.4.
\<close>

theorem get_recommendation_decision_witness:
  "((0.1::real) < 0.3 \<and>
      get_recommendation 0 0.1 = ''Plant more trees and create green spaces urgently'') \<and>
   ((0.3::real) \<le> 0.3 \<and>
      get_recommendation 0 0.3 = ''Improve ventilation and add water features'') \<and>
   ((0.1::real) < 0.4 \<and>
      get_recommendation 1 0.1 = ''Increase vegetation cover and add shade structures'') \<and>
   ((0.4::real) \<le> 0.4 \<and>
      get_recommendation 1 0.4 = ''Maintain current green cover and monitor temperature'') \<and>
   get_recommendation 2 0.1 = ''Maintain existing vegetation and urban planning''"
  using get_recommendation_decision [of "0.1"] get_recommendation_decision [of "0.3"]
    get_recommendation_decision [of "0.4"]
  by simp




text \<open>
  Claim C9. In a successful result the three zone counts sum to \<open>points\<close>.
\<close>

theorem zone_counts_sum:
  assumes "request_arg py_int pa 100 = Inr points"
    and "analyze_uhi py_int fs rng clock pa da = Success ps stats"
  shows "high_heat_zones stats + medium_heat_zones stats + low_heat_zones stats = points"
proof -
  from assms(2) obtain points' rs where *:
    "request_arg py_int pa 100 = Inr points'" "0 < points'" "length rs = nat points'"
    "ps = update_uhi (float_mean fs (map lst rs)) rs"
    "high_heat_zones stats = zone_count 0 ps"
    "medium_heat_zones stats = zone_count 1 ps"
    "low_heat_zones stats = zone_count 2 ps"
    by (rule analyze_uhi_data)
  have "\<forall>p\<in>set ps. zone p = 0 \<or> zone p = 1 \<or> zone p = 2"
    using data_classified [OF assms(2)] zone_of_cases by (auto simp: classified_def)
  then have "zone_count 0 ps + zone_count 1 ps + zone_count 2 ps = int (length ps)"
    by (rule zone_count_sum)
  with * assms(1) show ?thesis
    by simp
qed

text \<open>
  The counts of \<open>demo3\<close> sum to 3.
\<close>

theorem zone_counts_sum_witness:
  "request_arg decimal_int (Some ''3'') 100 = Inr 3 \<and>
   demo3 = Success (data demo3) (statistics demo3) \<and>
   high_heat_zones (statistics demo3) + medium_heat_zones (statistics demo3)
     + low_heat_zones (statistics demo3) = 3"
  using zone_counts_sum [OF request_arg_examples(1) demo3_request] request_arg_examples(1) demo3_facts(1)
  by simp

text \<open>
  Claim C10. The vegetation index of every observation of a result lies between 0.05
  and 0.85.
\<close>

theorem vegetation_index_clamped:
  assumes "analyze_uhi py_int fs rng clock pa da = Success ps stats" and "p \<in> set ps"
  shows "0.05 \<le> ndvi p \<and> ndvi p \<le> 0.85"
  using data_classified [OF assms] by (simp add: classified_def)

text \<open>
  The second observation of \<open>demo3\<close>: its temperature is 39 and its vegetation draw 0.1,
  the formula gives 0.045 and the clamp raises it to 0.05.
\<close>

theorem vegetation_index_clamped_witness:
  "demo3 = Success (data demo3) (statistics demo3) \<and> data demo3 ! 1 \<in> set (data demo3) \<and>
   0.05 \<le> ndvi (data demo3 ! 1) \<and> ndvi (data demo3 ! 1) \<le> 0.85 \<and>
   map ndvi (data demo3) = [0.1, 0.05, 0.1]"
  using vegetation_index_clamped [OF demo3_request map_nthD(1) [OF demo3_facts(2), of 1]]
    demo3_facts(1) map_nthD(1) [OF demo3_facts(2), of 1] demo3_facts(3)
  by simp

end
